theory Spec2Isabelle
  imports Main "HOL-Library.Sublist"
begin

section \<open>Strings\<close>

text \<open>
  A Python \<open>str\<close> is modelled as a \<open>string\<close> whose characters are the code points
  0..255. \<open>lower\<close> is \<open>str.lower\<close> on that range: the ASCII capitals and the Latin-1
  capitals 0xC0..0xDE (without the multiplication sign 0xD7) move up by 32, every other
  code point stays.
\<close>

definition lower_char :: "char \<Rightarrow> char" where
  "lower_char c =
     (let n = (of_char c :: nat)
      in if (65 \<le> n \<and> n \<le> 90) \<or> (192 \<le> n \<and> n \<le> 222 \<and> n \<noteq> 215)
         then char_of (n + 32) else c)"

definition lower :: "string \<Rightarrow> string" where
  "lower s = map lower_char s"

text \<open>\<open>sep.join(xs)\<close>.\<close>

fun join :: "string \<Rightarrow> string list \<Rightarrow> string" where
  "join sep [] = []"
| "join sep [x] = x"
| "join sep (x # y # ys) = x @ sep @ join sep (y # ys)"

definition dquote :: "string \<Rightarrow> string" where
  "dquote s = [CHR 0x22] @ s @ [CHR 0x22]"

section \<open>Examples\<close>

text \<open>
  A scalar of a table row: a \<open>str\<close>, \<open>None\<close>, or another scalar. An \<open>int\<close> and a
  \<open>bool\<close> are modelled as they are; a \<open>float\<close> is identified by the text that
  \<open>str()\<close> gives for it.
\<close>

datatype pyval = PStr string | PNone | PInt int | PBool bool | PFloat string

text \<open>
  The dictionaries of an example. A key that may be absent is an \<open>option\<close>;
  reading an absent key with \<open>d[k]\<close> raises \<open>KeyError\<close>.
\<close>

record wtable =
  header :: "string list option"
  types :: "string list option"
  rows :: "pyval list list option"

record sql_info =
  human_readable :: "string option"
  table_id :: "string option"

text \<open>
  The \<open>id\<close> of a provider item. A \<open>float\<close> is a finite value \<open>m * 2 ^ e\<close>, an
  infinity (with its sign) or a NaN.
\<close>

datatype pyfloat = FFinite int int | FInf bool | FNaN

datatype idval = IdStr string | IdInt int | IdBool bool | IdFloat pyfloat

text \<open>\<open>other_keys\<close> counts the keys of the dictionary that no code here reads.\<close>

record example =
  ex_id :: "idval option"
  question :: "string option"
  table :: "wtable option"
  sql :: "sql_info option"
  other_keys :: nat

text \<open>
  Exceptions. A message is kept structured: the fields are the values that the
  f-string of the source interpolates, and a wrapping message holds the message of
  the exception it wraps (\<open>str(e)\<close>).
\<close>

datatype message =
    Text string
  | MissingKey string
  | NoExampleGiven
  | InvalidExample
  | InvalidSplit string string "string list"
  | IndexOutOfRange int string nat
  | DatasetLoadFailed message
  | LoadSplitFailed string message
  | GetExampleFailed message

datatype error =
    KeyError message
  | ValueError message
  | IndexError message
  | OverflowError message
  | RuntimeError message
  | DatabaseError message
  | BaseException message

fun msg_of :: "error \<Rightarrow> message" where
  "msg_of (KeyError m) = m"
| "msg_of (ValueError m) = m"
| "msg_of (IndexError m) = m"
| "msg_of (OverflowError m) = m"
| "msg_of (RuntimeError m) = m"
| "msg_of (DatabaseError m) = m"
| "msg_of (BaseException m) = m"

text \<open>\<open>d[k]\<close> on a dictionary whose key \<open>k\<close> may be absent.\<close>

definition getitem :: "string \<Rightarrow> 'a option \<Rightarrow> error + 'a" where
  "getitem k v = (case v of None \<Rightarrow> Inl (KeyError (MissingKey k)) | Some x \<Rightarrow> Inr x)"

section \<open>Table Materializer: statements\<close>

text \<open>\<open>SQLiteConverter.TYPE_MAP\<close> and \<open>_get_sql_type\<close>.\<close>

definition TYPE_MAP :: "(string \<times> string) list" where
  "TYPE_MAP = [(''text'', ''TEXT''), (''number'', ''INTEGER''),
               (''real'', ''REAL''), (''date'', ''TEXT'')]"

definition get_sql_type :: "string \<Rightarrow> string" where
  "get_sql_type wikisql_type =
     (case map_of TYPE_MAP (lower wikisql_type) of
        Some t \<Rightarrow> t
      | None \<Rightarrow> ''TEXT'')"

text \<open>
  The loop of \<open>generate_create_table_sql\<close> over \<open>enumerate(zip(headers, types))\<close>:
  \<open>i\<close> is the running index and \<open>columns\<close> the list built so far.
\<close>

fun create_columns :: "nat \<Rightarrow> (string \<times> string) list \<Rightarrow> string list \<Rightarrow> string list" where
  "create_columns i [] columns = columns"
| "create_columns i ((h, col_type) # rest) columns =
     (let sql_type = get_sql_type col_type
      in if i = 0 \<and> lower col_type = ''number''
         then create_columns (Suc i) rest (columns @ [dquote h @ '' '' @ sql_type @ '' PRIMARY KEY''])
         else create_columns (Suc i) rest (columns @ [dquote h @ '' '' @ sql_type]))"

definition create_sql_text :: "string \<Rightarrow> string list \<Rightarrow> string" where
  "create_sql_text table_name columns =
     ''CREATE TABLE IF NOT EXISTS '' @ dquote table_name @ '' ('' @ [CHR 0x0A] @ ''  ''
       @ join ('','' @ [CHR 0x0A] @ ''  '') columns
       @ [CHR 0x0A] @ '');''"

definition generate_create_table_sql :: "example \<Rightarrow> string \<Rightarrow> error + string" where
  "generate_create_table_sql ex tname =
     (case getitem ''table'' (table ex) of Inl e \<Rightarrow> Inl e | Inr t \<Rightarrow>
       (case getitem ''header'' (header t) of Inl e \<Rightarrow> Inl e | Inr headers \<Rightarrow>
         (case getitem ''types'' (types t) of Inl e \<Rightarrow> Inl e | Inr tys \<Rightarrow>
            Inr (create_sql_text tname (create_columns 0 (zip headers tys) [])))))"

text \<open>\<open>str(n)\<close> for a Python \<open>int\<close>: the decimal digits, with a minus sign below zero.\<close>

definition digit_char :: "nat \<Rightarrow> char" where
  "digit_char d = char_of (48 + d)"

function str_nat :: "nat \<Rightarrow> string" where
  "str_nat n = (if n < 10 then [digit_char n] else str_nat (n div 10) @ [digit_char (n mod 10)])"
  by pat_completeness auto
termination
  by (relation "measure (\<lambda>n. n)") auto

declare str_nat.simps [simp del]

definition str_int :: "int \<Rightarrow> string" where
  "str_int i = (if i < 0 then ''-'' @ str_nat (nat (- i)) else str_nat (nat i))"

text \<open>
  \<open>str.split()\<close> without arguments: the maximal runs of characters that are not
  whitespace. On the code points 0..255 the whitespace of \<open>str.isspace\<close> is
  9..13, 28..32, 133 and 160. \<open>cur\<close> is the run being read.
\<close>

definition is_space :: "char \<Rightarrow> bool" where
  "is_space c =
     (let n = (of_char c :: nat)
      in (9 \<le> n \<and> n \<le> 13) \<or> (28 \<le> n \<and> n \<le> 32) \<or> n = 133 \<or> n = 160)"

fun split_from :: "string \<Rightarrow> string \<Rightarrow> string list" where
  "split_from [] cur = (if cur = [] then [] else [cur])"
| "split_from (c # cs) cur =
     (if is_space c
      then (if cur = [] then split_from cs [] else cur # split_from cs [])
      else split_from cs (cur @ [c]))"

definition split :: "string \<Rightarrow> string list" where
  "split s = split_from s []"

text \<open>
  \<open>generate_table_name\<close>. Python's \<open>hash\<close> of a tuple of strings is seeded per
  process, so it is the parameter \<open>py_hash\<close>: one process, one function.
\<close>

definition generate_table_name :: "(string list \<Rightarrow> int) \<Rightarrow> example \<Rightarrow> error + string" where
  "generate_table_name py_hash ex =
     (case getitem ''table'' (table ex) of Inl e \<Rightarrow> Inl e | Inr t \<Rightarrow>
       (case getitem ''header'' (header t) of Inl e \<Rightarrow> Inl e | Inr headers \<Rightarrow>
         (case getitem ''question'' (question ex) of Inl e \<Rightarrow> Inl e | Inr q \<Rightarrow>
            (let keywords = take 3 (split q)
             in Inr (''ex_'' @ str_int (\<bar>py_hash (headers @ keywords)\<bar> mod 10000))))))"

text \<open>
  \<open>s.replace(old, new)\<close>: the occurrences of \<open>old\<close> are found from left to right
  and do not overlap. With an empty \<open>old\<close> Python puts \<open>new\<close> before every character
  and at the end.
\<close>

function replace_from :: "string \<Rightarrow> string \<Rightarrow> string \<Rightarrow> string" where
  "replace_from old new [] = []"
| "replace_from old new (c # cs) =
     (if old \<noteq> [] \<and> prefix old (c # cs)
      then new @ replace_from old new (drop (length old) (c # cs))
      else c # replace_from old new cs)"
  by pat_completeness auto
termination
  by (relation "measure (\<lambda>(old, new, s). length s)") auto

definition replace :: "string \<Rightarrow> string \<Rightarrow> string \<Rightarrow> string" where
  "replace s old new =
     (if old = [] then new @ concat (map (\<lambda>c. c # new) s) else replace_from old new s)"

text \<open>\<open>str(value)\<close> for a scalar that is neither a \<open>str\<close> nor \<open>None\<close>.\<close>

fun str_of :: "pyval \<Rightarrow> string" where
  "str_of (PStr s) = s"
| "str_of PNone = ''None''"
| "str_of (PInt i) = str_int i"
| "str_of (PBool b) = (if b then ''True'' else ''False'')"
| "str_of (PFloat repr) = repr"

text \<open>The inner loop of \<open>generate_insert_sql\<close> over the values of one row.\<close>

fun insert_values :: "pyval list \<Rightarrow> string list \<Rightarrow> string list" where
  "insert_values [] vals = vals"
| "insert_values (PStr s # rest) vals =
     insert_values rest (vals @ [[CHR 0x27] @ replace s [CHR 0x27] [CHR 0x27, CHR 0x27] @ [CHR 0x27]])"
| "insert_values (PNone # rest) vals = insert_values rest (vals @ [''NULL''])"
| "insert_values (v # rest) vals = insert_values rest (vals @ [str_of v])"

definition insert_sql_text :: "string \<Rightarrow> string list \<Rightarrow> string list \<Rightarrow> string" where
  "insert_sql_text tname headers vals =
     ''INSERT INTO '' @ dquote tname @ '' ('' @ join '', '' (map dquote headers)
       @ '') VALUES ('' @ join '', '' vals @ '');''"

text \<open>The outer loop over the rows.\<close>

fun insert_rows :: "string \<Rightarrow> string list \<Rightarrow> pyval list list \<Rightarrow> string list \<Rightarrow> string list" where
  "insert_rows tname headers [] insert_statements = insert_statements"
| "insert_rows tname headers (row # rest) insert_statements =
     insert_rows tname headers rest
       (insert_statements @ [insert_sql_text tname headers (insert_values row [])])"

definition generate_insert_sql :: "example \<Rightarrow> string \<Rightarrow> error + string list" where
  "generate_insert_sql ex tname =
     (case getitem ''table'' (table ex) of Inl e \<Rightarrow> Inl e | Inr t \<Rightarrow>
       (case getitem ''header'' (header t) of Inl e \<Rightarrow> Inl e | Inr headers \<Rightarrow>
         (case getitem ''rows'' (rows t) of Inl e \<Rightarrow> Inl e | Inr rs \<Rightarrow>
            Inr (insert_rows tname headers rs []))))"

section \<open>Table Materializer: execution\<close>

text \<open>
  The relational store is outside the repository. A connection is a value of a
  type \<open>'db\<close>, and the store is given by two functions: \<open>exec\<close> runs one statement
  (\<open>cursor.execute\<close>) and \<open>commit\<close> commits; each returns the new connection state, or
  the message of the exception it raises, in which case the state stays as it was.
\<close>

record sqlite_info =
  table_name :: string
  db_path :: string
  create_sql :: string
  sample_query :: string
  target_sql :: "string option"

record conversion =
  raw_data :: example
  sqlite_info :: sqlite_info

text \<open>The loop \<open>for insert_sql in insert_sqls: cursor.execute(insert_sql)\<close>.\<close>

fun execute_all :: "(string \<Rightarrow> 'db \<Rightarrow> string + 'db) \<Rightarrow> string list \<Rightarrow> 'db \<Rightarrow> error option \<times> 'db" where
  "execute_all exec [] db = (None, db)"
| "execute_all exec (stmt # rest) db =
     (case exec stmt db of
        Inl m \<Rightarrow> (Some (DatabaseError (Text m)), db)
      | Inr db' \<Rightarrow> execute_all exec rest db')"

definition drop_sql :: "string \<Rightarrow> string" where
  "drop_sql tname = ''DROP TABLE IF EXISTS '' @ dquote tname @ '';''"

text \<open>
  \<open>convert_example\<close>, in the order of the source: the name and the statements are
  computed first, then the statements run, then the result is built. \<open>path\<close> is
  \<open>self.db_path\<close>. The result comes with the state of the connection, also when an
  exception leaves the method early.
\<close>

definition convert_example ::
  "(string list \<Rightarrow> int) \<Rightarrow> (string \<Rightarrow> 'db \<Rightarrow> string + 'db) \<Rightarrow> ('db \<Rightarrow> string + 'db) \<Rightarrow> string
     \<Rightarrow> example \<Rightarrow> 'db \<Rightarrow> (error + conversion) \<times> 'db" where
  "convert_example py_hash exec commit path ex db =
     (case generate_table_name py_hash ex of Inl e \<Rightarrow> (Inl e, db) | Inr tname \<Rightarrow>
       (case generate_create_table_sql ex tname of Inl e \<Rightarrow> (Inl e, db) | Inr create \<Rightarrow>
         (case generate_insert_sql ex tname of Inl e \<Rightarrow> (Inl e, db) | Inr insert_sqls \<Rightarrow>
           (case exec (drop_sql tname) db of
              Inl m \<Rightarrow> (Inl (DatabaseError (Text m)), db)
            | Inr db1 \<Rightarrow>
               (case exec create db1 of
                  Inl m \<Rightarrow> (Inl (DatabaseError (Text m)), db1)
                | Inr db2 \<Rightarrow>
                   (case execute_all exec insert_sqls db2 of
                      (Some e, db3) \<Rightarrow> (Inl e, db3)
                    | (None, db3) \<Rightarrow>
                       (case commit db3 of
                          Inl m \<Rightarrow> (Inl (DatabaseError (Text m)), db3)
                        | Inr db4 \<Rightarrow>
                           (case getitem ''sql'' (sql ex) of
                              Inl e \<Rightarrow> (Inl e, db4)
                            | Inr s \<Rightarrow>
                               (Inr \<lparr>raw_data = ex,
                                     sqlite_info = \<lparr>table_name = tname,
                                       db_path = path,
                                       create_sql = create,
                                       sample_query = ''SELECT * FROM '' @ dquote tname @ '' LIMIT 5;'',
                                       target_sql =
                                         (case human_readable s of
                                            None \<Rightarrow> None
                                          | Some raw_sql \<Rightarrow> Some (replace raw_sql ''table'' tname))\<rparr>\<rparr>,
                                db4)))))))))"

section \<open>Schema Normalizer: from an example\<close>

record column_schema =
  column_name :: string
  column_type :: string
  not_null :: bool
  is_primary_key :: bool

record foreign_key =
  fk_column :: string
  referenced_table :: string
  referenced_column :: string

record table_schema =
  name :: string
  columns :: "column_schema list"
  foreign_keys :: "foreign_key list"

record schema_document =
  tables :: "table_schema list"

text \<open>
  \<open>self.example\<close> is \<open>None\<close> or a dictionary; \<open>not self.example\<close> holds for \<open>None\<close>
  and for the dictionary without keys.
\<close>

definition is_empty :: "example \<Rightarrow> bool" where
  "is_empty ex \<longleftrightarrow>
     ex_id ex = None \<and> question ex = None \<and> table ex = None \<and> sql ex = None \<and> other_keys ex = 0"

definition falsy :: "example option \<Rightarrow> bool" where
  "falsy e = (case e of None \<Rightarrow> True | Some ex \<Rightarrow> is_empty ex)"

definition wikisql_type_to_sqlite :: "string \<Rightarrow> string" where
  "wikisql_type_to_sqlite wikisql_type =
     (let type_map = [(''text'', ''TEXT''), (''number'', ''INTEGER''),
                      (''real'', ''REAL''), (''date'', ''TEXT'')]
      in case map_of type_map (lower wikisql_type) of
           Some t \<Rightarrow> t
         | None \<Rightarrow> ''TEXT'')"

text \<open>The loop of \<open>_get_column_info\<close> over \<open>enumerate(zip(headers, types))\<close>.\<close>

fun column_infos :: "nat \<Rightarrow> (string \<times> string) list \<Rightarrow> column_schema list \<Rightarrow> column_schema list" where
  "column_infos i [] cols = cols"
| "column_infos i ((h, ctype) # rest) cols =
     (let sqlite_type = wikisql_type_to_sqlite ctype;
          is_pk = (i = 0 \<and> lower ctype = ''number'');
          column_info = \<lparr>column_name = h, column_type = sqlite_type,
                          not_null = True, is_primary_key = is_pk\<rparr>
      in column_infos (Suc i) rest (cols @ [column_info]))"

definition get_column_info :: "example option \<Rightarrow> error + column_schema list" where
  "get_column_info self_example =
     (case self_example of
        None \<Rightarrow> Inl (ValueError InvalidExample)
      | Some ex \<Rightarrow>
          if is_empty ex \<or> table ex = None then Inl (ValueError InvalidExample)
          else
            (case getitem ''table'' (table ex) of Inl e \<Rightarrow> Inl e | Inr t \<Rightarrow>
              (case getitem ''header'' (header t) of Inl e \<Rightarrow> Inl e | Inr headers \<Rightarrow>
                (case getitem ''types'' (types t) of Inl e \<Rightarrow> Inl e | Inr tys \<Rightarrow>
                   Inr (column_infos 0 (zip headers tys) [])))))"

definition load_schema :: "example option \<Rightarrow> error + schema_document" where
  "load_schema self_example =
     (case self_example of
        None \<Rightarrow> Inl (ValueError NoExampleGiven)
      | Some ex \<Rightarrow>
          if is_empty ex then Inl (ValueError NoExampleGiven)
          else
            (case get_column_info self_example of
               Inl e \<Rightarrow> Inl e
             | Inr cols \<Rightarrow>
                 (let tname =
                        (case sql ex of
                           None \<Rightarrow> ''table''
                         | Some s \<Rightarrow> (case table_id s of None \<Rightarrow> ''table'' | Some tid \<Rightarrow> tid))
                  in Inr \<lparr>tables = [\<lparr>name = tname, columns = cols, foreign_keys = []\<rparr>]\<rparr>)))"

definition load_schema_from_example :: "example \<Rightarrow> error + schema_document" where
  "load_schema_from_example ex = load_schema (Some ex)"

section \<open>Dataset Access Layer\<close>

text \<open>
  The provider's dataset is a dictionary from split names to sequences of items, in
  the order of its keys. \<open>load_dataset\<close> of the provider is outside the repository:
  its outcome is the parameter \<open>prov\<close>, the message of the exception it raises or
  the dataset.
\<close>

type_synonym dataset = "(string \<times> example list) list"

text \<open>
  The state of a \<open>WikiSQLDataset\<close>: \<open>self._dataset\<close>, \<open>self.data_cache\<close>, and the list
  objects that \<open>load_split\<close> has created. A list object is referred to by its
  address, the position in \<open>heap\<close>; the cache holds addresses, so that two results
  are the same object exactly when their addresses are equal.
\<close>

record ds_state =
  dataset_field :: "dataset option"
  data_cache :: "string \<rightharpoonup> nat"
  heap :: "example list list"

definition init_state :: ds_state where
  "init_state = \<lparr>dataset_field = None, data_cache = Map.empty, heap = []\<rparr>"

definition load_dataset :: "(string + dataset) \<Rightarrow> ds_state \<Rightarrow> (error + dataset) \<times> ds_state" where
  "load_dataset prov st =
     (case dataset_field st of
        Some ds \<Rightarrow> (Inr ds, st)
      | None \<Rightarrow>
          (case prov of
             Inl m \<Rightarrow> (Inl (RuntimeError (DatasetLoadFailed (Text m))), st)
           | Inr ds \<Rightarrow> (Inr ds, st\<lparr>dataset_field := Some ds\<rparr>)))"

text \<open>\<open>int(x)\<close> for a float: truncation towards zero; an infinity and a NaN raise.\<close>

fun int_of_float :: "pyfloat \<Rightarrow> error + int" where
  "int_of_float (FFinite m e) =
     (if 0 \<le> e then Inr (m * 2 ^ nat e)
      else if 0 \<le> m then Inr (m div 2 ^ nat (- e))
      else Inr (- ((- m) div 2 ^ nat (- e))))"
| "int_of_float (FInf _) = Inl (OverflowError (Text ''cannot convert float infinity to integer''))"
| "int_of_float FNaN = Inl (ValueError (Text ''cannot convert float NaN to integer''))"

text \<open>
  \<open>example = dict(item)\<close> followed by the coercion of a numeric \<open>id\<close> to
  \<open>str(int(id))\<close>; a \<open>bool\<close> is an \<open>int\<close> in Python.
\<close>

definition normalize_id :: "example \<Rightarrow> error + example" where
  "normalize_id item =
     (case ex_id item of
        None \<Rightarrow> Inr item
      | Some (IdStr s) \<Rightarrow> Inr item
      | Some (IdInt i) \<Rightarrow> Inr (item\<lparr>ex_id := Some (IdStr (str_int i))\<rparr>)
      | Some (IdBool b) \<Rightarrow> Inr (item\<lparr>ex_id := Some (IdStr (str_int (if b then 1 else 0)))\<rparr>)
      | Some (IdFloat f) \<Rightarrow>
          (case int_of_float f of
             Inl e \<Rightarrow> Inl e
           | Inr i \<Rightarrow> Inr (item\<lparr>ex_id := Some (IdStr (str_int i))\<rparr>)))"

text \<open>The loop of \<open>load_split\<close> over the selected items; \<open>data\<close> is the list built so far.\<close>

fun load_items :: "example list \<Rightarrow> example list \<Rightarrow> error + example list" where
  "load_items [] data = Inr data"
| "load_items (item # rest) data =
     (case normalize_id item of
        Inl e \<Rightarrow> Inl e
      | Inr ex \<Rightarrow> load_items rest (data @ [ex]))"

definition cache_key :: "string \<Rightarrow> int option \<Rightarrow> string" where
  "cache_key split_name limit =
     split_name @ ''_'' @ (case limit of None \<Rightarrow> ''None'' | Some l \<Rightarrow> str_int l)"

definition hf_name :: "string \<Rightarrow> string" where
  "hf_name split_name = (if split_name = ''dev'' then ''validation'' else split_name)"

text \<open>The body of the \<open>try\<close> block of \<open>load_split\<close>.\<close>

definition load_split_body ::
  "(string + dataset) \<Rightarrow> string \<Rightarrow> int option \<Rightarrow> ds_state \<Rightarrow> (error + nat) \<times> ds_state" where
  "load_split_body prov split_name limit st =
     (case load_dataset prov st of
        (Inl e, st1) \<Rightarrow> (Inl e, st1)
      | (Inr dataset_dict, st1) \<Rightarrow>
          (case map_of dataset_dict (hf_name split_name) of
             None \<Rightarrow>
               (Inl (ValueError (InvalidSplit split_name (hf_name split_name) (map fst dataset_dict))), st1)
           | Some items \<Rightarrow>
               (let split_dataset =
                      (case limit of
                         None \<Rightarrow> items
                       | Some l \<Rightarrow> take (nat (min l (int (length items)))) items)
                in case load_items split_dataset [] of
                     Inl e \<Rightarrow> (Inl e, st1)
                   | Inr data \<Rightarrow>
                       (Inr (length (heap st1)),
                        st1\<lparr>heap := heap st1 @ [data],
                            data_cache := (data_cache st1)(cache_key split_name limit \<mapsto> length (heap st1))\<rparr>))))"

text \<open>
  \<open>load_split\<close>: the cache is looked up first; every exception of the \<open>try\<close> block
  is caught by \<open>except Exception\<close> and raised again as a \<open>RuntimeError\<close>.
\<close>

definition load_split ::
  "(string + dataset) \<Rightarrow> string \<Rightarrow> int option \<Rightarrow> ds_state \<Rightarrow> (error + nat) \<times> ds_state" where
  "load_split prov split_name limit st =
     (case data_cache st (cache_key split_name limit) of
        Some a \<Rightarrow> (Inr a, st)
      | None \<Rightarrow>
          (case load_split_body prov split_name limit st of
             (Inl e, st1) \<Rightarrow> (Inl (RuntimeError (LoadSplitFailed split_name (msg_of e))), st1)
           | (Inr a, st1) \<Rightarrow> (Inr a, st1)))"

text \<open>The body of the \<open>try\<close> block of \<open>get_example\<close>.\<close>

definition get_example_body ::
  "(string + dataset) \<Rightarrow> string \<Rightarrow> int \<Rightarrow> ds_state \<Rightarrow> (error + example) \<times> ds_state" where
  "get_example_body prov split_name index st =
     (case load_dataset prov st of
        (Inl e, st1) \<Rightarrow> (Inl e, st1)
      | (Inr dataset_dict, st1) \<Rightarrow>
          (case map_of dataset_dict (hf_name split_name) of
             None \<Rightarrow>
               (Inl (ValueError (InvalidSplit split_name (hf_name split_name) (map fst dataset_dict))), st1)
           | Some items \<Rightarrow>
               if index < 0 \<or> index \<ge> int (length items)
               then (Inl (IndexError (IndexOutOfRange index split_name (length items))), st1)
               else (normalize_id (items ! nat index), st1)))"

text \<open>
  \<open>get_example\<close>: \<open>except (ValueError, IndexError): raise\<close> lets these two pass, and
  \<open>except Exception\<close> wraps the rest.
\<close>

definition get_example ::
  "(string + dataset) \<Rightarrow> string \<Rightarrow> int \<Rightarrow> ds_state \<Rightarrow> (error + example) \<times> ds_state" where
  "get_example prov split_name index st =
     (case get_example_body prov split_name index st of
        (Inl (ValueError m), st1) \<Rightarrow> (Inl (ValueError m), st1)
      | (Inl (IndexError m), st1) \<Rightarrow> (Inl (IndexError m), st1)
      | (Inl e, st1) \<Rightarrow> (Inl (RuntimeError (GetExampleFailed (msg_of e))), st1)
      | (Inr ex, st1) \<Rightarrow> (Inr ex, st1))"

section \<open>Prompt-Chain Generator\<close>

text \<open>
  The completion service is outside the repository. \<open>chain.invoke\<close> is the parameter
  \<open>invoke\<close>: from the model handle, the prompt template, the question and the schema
  it gives the text of the completion, or the exception that the service raises. An
  exception is of a class derived from \<open>Exception\<close> or not (\<open>KeyboardInterrupt\<close>,
  \<open>SystemExit\<close>).
\<close>

datatype outcome = Completed string | Raised bool string

record 'l sql_generator =
  llm :: 'l
  prompt :: string

definition PROMPT_TEMPLATE :: string where
  "PROMPT_TEMPLATE =
     [CHR 0x0A]
     @ ''Based on the table schema below, write a SQL query that would answer the user'' @ [CHR 0x27]
     @ ''s question.'' @ [CHR 0x0A]
     @ ''Do not query for columns that are not in the schema.'' @ [CHR 0x0A]
     @ ''Pay attention to the type of columns.'' @ [CHR 0x0A]
     @ ''Output the SQL query ONLY, without any explanation or markdown formatting.'' @ [CHR 0x0A]
     @ [CHR 0x0A]
     @ ''Schema:'' @ [CHR 0x0A]
     @ ''{schema}'' @ [CHR 0x0A]
     @ [CHR 0x0A]
     @ ''Question:'' @ [CHR 0x0A]
     @ ''{question}'' @ [CHR 0x0A]
     @ [CHR 0x0A]
     @ ''SQL Query:'' @ [CHR 0x0A]"

text \<open>
  \<open>SQLGenerator.__init__\<close>. \<open>api_key\<close> is \<open>OPENAI_API_KEY\<close> (\<open>os.getenv\<close>: a string
  or \<open>None\<close>), \<open>default_llm\<close> builds the \<open>ChatOpenAI\<close> handle from the key.
\<close>

definition sql_generator_init ::
  "string option \<Rightarrow> (string \<Rightarrow> 'l) \<Rightarrow> 'l option \<Rightarrow> string option \<Rightarrow> error + 'l sql_generator" where
  "sql_generator_init api_key default_llm llm_arg prompt_template =
     (case api_key of
        None \<Rightarrow> Inl (ValueError (Text ''OPENAI_API_KEY is not configured. Please set it in your .env file.''))
      | Some k \<Rightarrow>
          if k = [] then Inl (ValueError (Text ''OPENAI_API_KEY is not configured. Please set it in your .env file.''))
          else Inr \<lparr>llm = (case llm_arg of Some l \<Rightarrow> l | None \<Rightarrow> default_llm k),
                    prompt = (case prompt_template of
                                None \<Rightarrow> PROMPT_TEMPLATE
                              | Some t \<Rightarrow> if t = [] then PROMPT_TEMPLATE else t)\<rparr>)"

text \<open>
  \<open>SQLGenerator.generate\<close>: \<open>except Exception as e\<close> turns the exception into the
  returned text; an exception outside \<open>Exception\<close> is not caught.
\<close>

definition generate ::
  "('l \<Rightarrow> string \<Rightarrow> string \<Rightarrow> string \<Rightarrow> outcome) \<Rightarrow> 'l sql_generator \<Rightarrow> string \<Rightarrow> string \<Rightarrow> error + string" where
  "generate invoke self question_text schema_text =
     (case invoke (llm self) (prompt self) question_text schema_text of
        Completed sql_query \<Rightarrow> Inr sql_query
      | Raised is_exception e \<Rightarrow>
          if is_exception then Inr (''Error generating SQL: '' @ e)
          else Inl (BaseException (Text e)))"

section \<open>Auxiliary definitions\<close>

text \<open>
  The type table as the specification words it, one line per entry, and the column
  definition and the column record that it prescribes for the column at index \<open>i\<close>.
\<close>

definition mapped_type :: "string \<Rightarrow> string" where
  "mapped_type tag =
     (let l = lower tag
      in if l = ''text'' then ''TEXT''
         else if l = ''number'' then ''INTEGER''
         else if l = ''real'' then ''REAL''
         else if l = ''date'' then ''TEXT''
         else ''TEXT'')"

definition column_def :: "nat \<Rightarrow> string \<Rightarrow> string \<Rightarrow> string" where
  "column_def i h tag =
     dquote h @ '' '' @ mapped_type tag @ (if i = 0 \<and> lower tag = ''number'' then '' PRIMARY KEY'' else [])"

fun column_defs :: "nat \<Rightarrow> (string \<times> string) list \<Rightarrow> string list" where
  "column_defs i [] = []"
| "column_defs i ((h, tag) # zs) = column_def i h tag # column_defs (Suc i) zs"

definition column_of :: "nat \<Rightarrow> string \<Rightarrow> string \<Rightarrow> column_schema" where
  "column_of i h tag =
     \<lparr>column_name = h, column_type = mapped_type tag, not_null = True,
      is_primary_key = (i = 0 \<and> lower tag = ''number'')\<rparr>"

fun columns_of :: "nat \<Rightarrow> (string \<times> string) list \<Rightarrow> column_schema list" where
  "columns_of i [] = []"
| "columns_of i ((h, tag) # zs) = column_of i h tag # columns_of (Suc i) zs"

text \<open>The example of the concrete scenario of the specification.\<close>

definition scenario_table :: wtable where
  "scenario_table =
     \<lparr>header = Some [''id'', ''name'', ''amount'', ''date''],
      types = Some [''number'', ''text'', ''real'', ''text''],
      rows = Some [[PStr ''1'', PStr ''Alice'', PStr ''120.5'', PStr ''2025-04-01'']]\<rparr>"

definition scenario_example :: example where
  "scenario_example =
     \<lparr>ex_id = None,
      question = Some ''How many rows have an amount above 100?'',
      table = Some scenario_table,
      sql = Some \<lparr>human_readable = Some ''SELECT COUNT(id) FROM table WHERE amount > 100'',
                  table_id = None\<rparr>,
      other_keys = 0\<rparr>"

text \<open>An example whose header is longer than its types.\<close>

definition ragged_example :: example where
  "ragged_example =
     \<lparr>ex_id = None, question = Some ''Which city?'',
      table = Some \<lparr>header = Some [''id'', ''city'', ''note''],
                    types = Some [''number'', ''text''],
                    rows = Some []\<rparr>,
      sql = None, other_keys = 0\<rparr>"

text \<open>
  The SQL literal of a row value as the specification words it: a string between
  single quotes with every single quote inside doubled, \<open>NULL\<close> for \<open>None\<close>, and
  the text of \<open>str\<close> for every other value.
\<close>

definition squote :: "string \<Rightarrow> string" where
  "squote s = [CHR 0x27] @ s @ [CHR 0x27]"

definition double_quotes :: "string \<Rightarrow> string" where
  "double_quotes s = concat (map (\<lambda>c. if c = CHR 0x27 then [CHR 0x27, CHR 0x27] else [c]) s)"

fun sql_literal :: "pyval \<Rightarrow> string" where
  "sql_literal (PStr s) = [CHR 0x27] @ double_quotes s @ [CHR 0x27]"
| "sql_literal PNone = ''NULL''"
| "sql_literal v = str_of v"

text \<open>A row with a quote inside a string, an integer and a \<open>None\<close>.\<close>

definition quoted_example :: example where
  "quoted_example =
     \<lparr>ex_id = None, question = Some ''Who scored?'',
      table = Some \<lparr>header = Some [''player'', ''goals'', ''club''],
                    types = Some [''text'', ''number'', ''text''],
                    rows = Some [[PStr (''O'' @ [CHR 0x27] @ ''Brien''), PInt 3, PNone]]\<rparr>,
      sql = None, other_keys = 0\<rparr>"

text \<open>
  The rewriting of the placeholder as the specification words it: \<open>old\<close> is replaced
  where it stands as a word of its own, that is outside a string literal and with no
  letter, digit or underscore directly before or after it. \<open>prev_word\<close> tells whether
  the character before is one of these, \<open>in_literal\<close> whether a single quote is open.
\<close>

definition is_word_char :: "char \<Rightarrow> bool" where
  "is_word_char c =
     (let n = (of_char c :: nat)
      in (48 \<le> n \<and> n \<le> 57) \<or> (65 \<le> n \<and> n \<le> 90) \<or> n = 95 \<or> (97 \<le> n \<and> n \<le> 122))"

function replace_standalone_from :: "string \<Rightarrow> string \<Rightarrow> bool \<Rightarrow> bool \<Rightarrow> string \<Rightarrow> string" where
  "replace_standalone_from old new prev_word in_literal [] = []"
| "replace_standalone_from old new prev_word in_literal (c # cs) =
     (if old \<noteq> [] \<and> \<not> prev_word \<and> \<not> in_literal \<and> prefix old (c # cs)
         \<and> (case drop (length old) (c # cs) of [] \<Rightarrow> True | d # _ \<Rightarrow> \<not> is_word_char d)
      then new @ replace_standalone_from old new True in_literal (drop (length old) (c # cs))
      else c # replace_standalone_from old new (is_word_char c)
                 (if c = CHR 0x27 then \<not> in_literal else in_literal) cs)"
  by pat_completeness auto
termination
  by (relation "measure (\<lambda>(old, new, p, l, s). length s)") auto

definition replace_standalone :: "string \<Rightarrow> string \<Rightarrow> string \<Rightarrow> string" where
  "replace_standalone s old new = replace_standalone_from old new False False s"

text \<open>\<open>old in s\<close>: \<open>old\<close> occurs in \<open>s\<close>.\<close>

fun contains :: "string \<Rightarrow> string \<Rightarrow> bool" where
  "contains old [] = (old = [])"
| "contains old (c # cs) = (prefix old (c # cs) \<or> contains old cs)"

text \<open>
  A store for the witnesses: it counts the statements it has run and keeps the
  statements run since the last \<open>DROP TABLE\<close>.
\<close>

definition log_exec :: "string \<Rightarrow> nat \<times> string list \<Rightarrow> string + nat \<times> string list" where
  "log_exec stmt db =
     (if prefix ''DROP TABLE IF EXISTS '' stmt then Inr (Suc (fst db), [])
      else Inr (Suc (fst db), snd db @ [stmt]))"

definition log_commit :: "nat \<times> string list \<Rightarrow> string + nat \<times> string list" where
  "log_commit db = Inr db"


text \<open>An example whose query names a column that contains the placeholder.\<close>

definition timetable_example :: example where
  "timetable_example =
     \<lparr>ex_id = None, question = Some ''Which timetable is used?'',
      table = Some \<lparr>header = Some [''timetable''], types = Some [''text''],
                    rows = Some [[PStr ''summer'']]\<rparr>,
      sql = Some \<lparr>human_readable = Some ''SELECT timetable FROM table'', table_id = None\<rparr>,
      other_keys = 0\<rparr>"

text \<open>A completion service that fails, and a provider with three empty splits.\<close>

definition failing_chain :: "unit \<Rightarrow> string \<Rightarrow> string \<Rightarrow> string \<Rightarrow> outcome" where
  "failing_chain l template question_text schema_text = Raised True ''Connection error.''"

definition three_splits :: dataset where
  "three_splits = [(''train'', []), (''validation'', []), (''test'', [])]"

text \<open>
  The cache of an instance is well formed when every cached address is the address of
  a list object and no two keys share an address. It holds initially and \<open>load_split\<close>
  keeps it.
\<close>

definition cache_wf :: "ds_state \<Rightarrow> bool" where
  "cache_wf st \<longleftrightarrow>
     (\<forall>k a. data_cache st k = Some a \<longrightarrow> a < length (heap st))
   \<and> (\<forall>k k' a. data_cache st k = Some a \<and> data_cache st k' = Some a \<longrightarrow> k = k')"

text \<open>A provider with a \<open>train\<close> split of one item and a \<open>validation\<close> split of four.\<close>

definition numbered :: "string \<Rightarrow> example" where
  "numbered q = \<lparr>ex_id = None, question = Some q, table = None, sql = None, other_keys = 0\<rparr>"

definition dev_provider :: dataset where
  "dev_provider =
     [(''train'', [numbered ''t0'']),
      (''validation'', [numbered ''q0'', numbered ''q1'', numbered ''q2'', numbered ''q3''])]"

section \<open>Relational store\<close>









section \<open>Column definitions\<close>

lemma get_sql_type_mapped: "get_sql_type tag = mapped_type tag"
  by (simp add: get_sql_type_def TYPE_MAP_def mapped_type_def Let_def)

lemma wikisql_type_to_sqlite_mapped: "wikisql_type_to_sqlite tag = mapped_type tag"
  by (simp add: wikisql_type_to_sqlite_def mapped_type_def Let_def)

lemma create_columns_eq: "create_columns i zs acc = acc @ column_defs i zs"
  by (induction i zs acc rule: create_columns.induct)
     (simp_all add: Let_def column_def_def get_sql_type_mapped)

lemma column_defs_length: "length (column_defs i zs) = length zs"
  by (induction i zs rule: column_defs.induct) simp_all

lemma column_defs_nth:
  "k < length zs \<Longrightarrow> column_defs i zs ! k = column_def (i + k) (fst (zs ! k)) (snd (zs ! k))"
proof (induction i zs arbitrary: k rule: column_defs.induct)
  case (1 i)
  then show ?case by simp
next
  case (2 i h tag zs)
  then show ?case by (cases k) simp_all
qed

lemma create_columns_length: "length (create_columns 0 (zip hs ts) []) = min (length hs) (length ts)"
  by (simp add: create_columns_eq column_defs_length)

lemma create_columns_nth:
  assumes "i < min (length hs) (length ts)"
  shows "create_columns 0 (zip hs ts) [] ! i = column_def i (hs ! i) (ts ! i)"
  using assms by (simp add: create_columns_eq column_defs_nth)

lemma column_infos_eq: "column_infos i zs acc = acc @ columns_of i zs"
  by (induction i zs acc rule: column_infos.induct)
     (simp_all add: Let_def column_of_def wikisql_type_to_sqlite_mapped)

lemma columns_of_length: "length (columns_of i zs) = length zs"
  by (induction i zs rule: columns_of.induct) simp_all

lemma columns_of_nth:
  "k < length zs \<Longrightarrow> columns_of i zs ! k = column_of (i + k) (fst (zs ! k)) (snd (zs ! k))"
proof (induction i zs arbitrary: k rule: columns_of.induct)
  case (1 i)
  then show ?case by simp
next
  case (2 i h tag zs)
  then show ?case by (cases k) simp_all
qed

lemma column_infos_length: "length (column_infos 0 (zip hs ts) []) = min (length hs) (length ts)"
  by (simp add: column_infos_eq columns_of_length)

lemma column_infos_nth:
  assumes "i < min (length hs) (length ts)"
  shows "column_infos 0 (zip hs ts) [] ! i = column_of i (hs ! i) (ts ! i)"
  using assms by (simp add: column_infos_eq columns_of_nth)



section \<open>Schema of an example\<close>

lemma load_schema_ok:
  assumes "table ex = Some t" and "header t = Some hs" and "types t = Some ts"
  shows "load_schema_from_example ex =
           Inr \<lparr>tables = [\<lparr>name = (case sql ex of
                                     None \<Rightarrow> ''table''
                                   | Some s \<Rightarrow> (case table_id s of None \<Rightarrow> ''table'' | Some tid \<Rightarrow> tid)),
                           columns = column_infos 0 (zip hs ts) [],
                           foreign_keys = []\<rparr>]\<rparr>"
  using assms
  by (simp add: load_schema_from_example_def load_schema_def get_column_info_def getitem_def
      is_empty_def)

text \<open>
  C6. For a valid example (a table whose header and types have the same length) the
  Schema Normalizer returns one table: column \<open>i\<close> has the name \<open>header[i]\<close>, the
  type given by the type table for \<open>types[i]\<close>, \<open>not_null\<close> true, and
  \<open>is_primary_key\<close> true only at index 0 with the type tag \<open>number\<close>; there are no
  foreign keys; the table name is \<open>sql.table_id\<close> when it is present and \<open>table\<close>
  otherwise.
\<close>

theorem schema_from_example:
  assumes "table ex = Some t" and "header t = Some hs" and "types t = Some ts"
    and "length hs = length ts"
  shows "\<exists>cols.
           load_schema_from_example ex =
             Inr \<lparr>tables = [\<lparr>name = (case sql ex of
                                       None \<Rightarrow> ''table''
                                     | Some s \<Rightarrow> (case table_id s of None \<Rightarrow> ''table'' | Some tid \<Rightarrow> tid)),
                             columns = cols,
                             foreign_keys = []\<rparr>]\<rparr>
         \<and> length cols = length hs
         \<and> (\<forall>i < length hs.
              cols ! i = \<lparr>column_name = hs ! i, column_type = mapped_type (ts ! i), not_null = True,
                          is_primary_key = (i = 0 \<and> lower (ts ! i) = ''number'')\<rparr>)"
proof (intro exI conjI allI impI)
  show "load_schema_from_example ex =
          Inr \<lparr>tables = [\<lparr>name = (case sql ex of
                                    None \<Rightarrow> ''table''
                                  | Some s \<Rightarrow> (case table_id s of None \<Rightarrow> ''table'' | Some tid \<Rightarrow> tid)),
                          columns = column_infos 0 (zip hs ts) [],
                          foreign_keys = []\<rparr>]\<rparr>"
    by (rule load_schema_ok [OF assms(1-3)])
  show "length (column_infos 0 (zip hs ts) []) = length hs"
    using assms(4) by (simp add: column_infos_length)
  fix i assume "i < length hs"
  then show "column_infos 0 (zip hs ts) [] ! i =
               \<lparr>column_name = hs ! i, column_type = mapped_type (ts ! i), not_null = True,
                is_primary_key = (i = 0 \<and> lower (ts ! i) = ''number'')\<rparr>"
    using assms(4) column_infos_nth [of i hs ts] by (simp add: column_of_def)
qed

theorem schema_from_example_witness:
  "table scenario_example = Some scenario_table
   \<and> header scenario_table = Some [''id'', ''name'', ''amount'', ''date'']
   \<and> types scenario_table = Some [''number'', ''text'', ''real'', ''text'']
   \<and> length [''id'', ''name'', ''amount'', ''date''] = length [''number'', ''text'', ''real'', ''text'']
   \<and> (\<exists>cols.
         load_schema_from_example scenario_example =
           Inr \<lparr>tables = [\<lparr>name = ''table'', columns = cols, foreign_keys = []\<rparr>]\<rparr>
       \<and> length cols = 4
       \<and> cols ! 0 = \<lparr>column_name = ''id'', column_type = ''INTEGER'', not_null = True,
                      is_primary_key = True\<rparr>)"
proof -
  have h1: "table scenario_example = Some scenario_table"
    by (simp add: scenario_example_def)
  have h2: "header scenario_table = Some [''id'', ''name'', ''amount'', ''date'']"
    by (simp add: scenario_table_def)
  have h3: "types scenario_table = Some [''number'', ''text'', ''real'', ''text'']"
    by (simp add: scenario_table_def)
  have h4: "length [''id'', ''name'', ''amount'', ''date''] = length [''number'', ''text'', ''real'', ''text'']"
    by simp
  have low: "lower ''number'' = ''number''"
    by code_simp
  have nm: "(case sql scenario_example of
               None \<Rightarrow> ''table''
             | Some s \<Rightarrow> (case table_id s of None \<Rightarrow> ''table'' | Some tid \<Rightarrow> tid)) = ''table''"
    by (simp add: scenario_example_def)
  from schema_from_example [OF h1 h2 h3 h4] obtain cols where
    c: "load_schema_from_example scenario_example =
          Inr \<lparr>tables = [\<lparr>name = ''table'', columns = cols, foreign_keys = []\<rparr>]\<rparr>"
      "length cols = length [''id'', ''name'', ''amount'', ''date'']"
      "\<forall>i < length [''id'', ''name'', ''amount'', ''date''].
         cols ! i = \<lparr>column_name = [''id'', ''name'', ''amount'', ''date''] ! i,
                     column_type = mapped_type ([''number'', ''text'', ''real'', ''text''] ! i),
                     not_null = True,
                     is_primary_key = (i = 0 \<and> lower ([''number'', ''text'', ''real'', ''text''] ! i) = ''number'')\<rparr>"
    unfolding nm by blast
  from c(3) have "cols ! 0 = \<lparr>column_name = ''id'', column_type = ''INTEGER'', not_null = True,
                      is_primary_key = True\<rparr>"
    by (simp add: mapped_type_def low)
  with c(1,2) h1 h2 h3 h4 show ?thesis by auto
qed

text \<open>
  C10. For an example whose header and types differ in length, the CREATE generator
  and the Schema Normalizer both return without an error, with exactly
  \<open>min(len(header), len(types))\<close> columns, paired by position; the unpaired tail is
  dropped and the lengths are never compared.
\<close>

theorem unequal_lengths_truncate:
  assumes "table ex = Some t" and "header t = Some hs" and "types t = Some ts"
    and "length hs \<noteq> length ts"
  shows "(\<exists>cols.
            generate_create_table_sql ex tname =
              Inr (''CREATE TABLE IF NOT EXISTS '' @ dquote tname @ '' ('' @ [CHR 0x0A] @ ''  ''
                   @ join ('','' @ [CHR 0x0A] @ ''  '') cols @ [CHR 0x0A] @ '');'')
          \<and> length cols = min (length hs) (length ts)
          \<and> (\<forall>i < min (length hs) (length ts).
               cols ! i = dquote (hs ! i) @ '' '' @ mapped_type (ts ! i)
                 @ (if i = 0 \<and> lower (ts ! i) = ''number'' then '' PRIMARY KEY'' else [])))
       \<and> (\<exists>cols.
            load_schema_from_example ex =
              Inr \<lparr>tables = [\<lparr>name = (case sql ex of
                                        None \<Rightarrow> ''table''
                                      | Some s \<Rightarrow> (case table_id s of None \<Rightarrow> ''table'' | Some tid \<Rightarrow> tid)),
                              columns = cols,
                              foreign_keys = []\<rparr>]\<rparr>
          \<and> length cols = min (length hs) (length ts)
          \<and> (\<forall>i < min (length hs) (length ts).
               cols ! i = \<lparr>column_name = hs ! i, column_type = mapped_type (ts ! i), not_null = True,
                           is_primary_key = (i = 0 \<and> lower (ts ! i) = ''number'')\<rparr>))"
proof (rule conjI)
  have "generate_create_table_sql ex tname =
          Inr (''CREATE TABLE IF NOT EXISTS '' @ dquote tname @ '' ('' @ [CHR 0x0A] @ ''  ''
               @ join ('','' @ [CHR 0x0A] @ ''  '') (create_columns 0 (zip hs ts) [])
               @ [CHR 0x0A] @ '');'')"
    using assms(1-3) by (simp add: generate_create_table_sql_def getitem_def create_sql_text_def)
  moreover have "\<forall>i < min (length hs) (length ts).
      create_columns 0 (zip hs ts) [] ! i = dquote (hs ! i) @ '' '' @ mapped_type (ts ! i)
        @ (if i = 0 \<and> lower (ts ! i) = ''number'' then '' PRIMARY KEY'' else [])"
    using create_columns_nth [of _ hs ts] by (simp add: column_def_def)
  ultimately show "\<exists>cols.
            generate_create_table_sql ex tname =
              Inr (''CREATE TABLE IF NOT EXISTS '' @ dquote tname @ '' ('' @ [CHR 0x0A] @ ''  ''
                   @ join ('','' @ [CHR 0x0A] @ ''  '') cols @ [CHR 0x0A] @ '');'')
          \<and> length cols = min (length hs) (length ts)
          \<and> (\<forall>i < min (length hs) (length ts).
               cols ! i = dquote (hs ! i) @ '' '' @ mapped_type (ts ! i)
                 @ (if i = 0 \<and> lower (ts ! i) = ''number'' then '' PRIMARY KEY'' else []))"
    using create_columns_length [of hs ts] by blast
next
  have "\<forall>i < min (length hs) (length ts).
      column_infos 0 (zip hs ts) [] ! i =
        \<lparr>column_name = hs ! i, column_type = mapped_type (ts ! i), not_null = True,
         is_primary_key = (i = 0 \<and> lower (ts ! i) = ''number'')\<rparr>"
    using column_infos_nth [of _ hs ts] by (simp add: column_of_def)
  then show "\<exists>cols.
            load_schema_from_example ex =
              Inr \<lparr>tables = [\<lparr>name = (case sql ex of
                                        None \<Rightarrow> ''table''
                                      | Some s \<Rightarrow> (case table_id s of None \<Rightarrow> ''table'' | Some tid \<Rightarrow> tid)),
                              columns = cols,
                              foreign_keys = []\<rparr>]\<rparr>
          \<and> length cols = min (length hs) (length ts)
          \<and> (\<forall>i < min (length hs) (length ts).
               cols ! i = \<lparr>column_name = hs ! i, column_type = mapped_type (ts ! i), not_null = True,
                           is_primary_key = (i = 0 \<and> lower (ts ! i) = ''number'')\<rparr>)"
    using load_schema_ok [OF assms(1-3)] column_infos_length [of hs ts] by blast
qed

theorem unequal_lengths_truncate_witness:
  \<open>length [''id'', ''city'', ''note''] \<noteq> length [''number'', ''text'']
   \<and> generate_create_table_sql ragged_example ''t'' =
       Inr (''CREATE TABLE IF NOT EXISTS "t" ('' @ [CHR 0x0A]
            @ ''  "id" INTEGER PRIMARY KEY,'' @ [CHR 0x0A]
            @ ''  "city" TEXT'' @ [CHR 0x0A]
            @ '');'')
   \<and> load_schema_from_example ragged_example =
       Inr \<lparr>tables = [\<lparr>name = ''table'',
                       columns = [\<lparr>column_name = ''id'', column_type = ''INTEGER'',
                                   not_null = True, is_primary_key = True\<rparr>,
                                  \<lparr>column_name = ''city'', column_type = ''TEXT'',
                                   not_null = True, is_primary_key = False\<rparr>],
                       foreign_keys = []\<rparr>]\<rparr>\<close>
proof -
  let ?t = "\<lparr>header = Some [''id'', ''city'', ''note''], types = Some [''number'', ''text''],
             rows = Some []\<rparr>"
  have h1: "table ragged_example = Some ?t"
    by (simp add: ragged_example_def)
  have h2: "header ?t = Some [''id'', ''city'', ''note'']" by simp
  have h3: "types ?t = Some [''number'', ''text'']" by simp
  have h4: "length [''id'', ''city'', ''note''] \<noteq> length [''number'', ''text'']" by simp
  have low: "lower ''number'' = ''number''" "lower ''text'' = ''text''" by code_simp+
  have two: "xs = [xs ! 0, xs ! 1]" if "length xs = 2" for xs :: "'a list"
    using that by (cases xs; cases "tl xs") auto
  note t = unequal_lengths_truncate [OF h1 h2 h3 h4, of "''t''"]
  from t obtain cols where
    c: "generate_create_table_sql ragged_example ''t'' =
          Inr (''CREATE TABLE IF NOT EXISTS '' @ dquote ''t'' @ '' ('' @ [CHR 0x0A] @ ''  ''
               @ join ('','' @ [CHR 0x0A] @ ''  '') cols @ [CHR 0x0A] @ '');'')"
    and cl: "length cols = 2"
    and cn: "\<forall>i < 2. cols ! i = dquote ([''id'', ''city'', ''note''] ! i) @ '' ''
               @ mapped_type ([''number'', ''text''] ! i)
               @ (if i = 0 \<and> lower ([''number'', ''text''] ! i) = ''number''
                  then '' PRIMARY KEY'' else [])"
    by auto
  from cn have "cols ! 0 = dquote ''id'' @ '' INTEGER PRIMARY KEY''"
    and "cols ! 1 = dquote ''city'' @ '' TEXT''"
    by (simp_all add: mapped_type_def low)
  with two [OF cl] have "cols = [dquote ''id'' @ '' INTEGER PRIMARY KEY'', dquote ''city'' @ '' TEXT'']"
    by simp
  with c have create: \<open>generate_create_table_sql ragged_example ''t'' =
       Inr (''CREATE TABLE IF NOT EXISTS "t" ('' @ [CHR 0x0A]
            @ ''  "id" INTEGER PRIMARY KEY,'' @ [CHR 0x0A]
            @ ''  "city" TEXT'' @ [CHR 0x0A]
            @ '');'')\<close>
    by (simp add: dquote_def)
  from t obtain infos where
    s: "load_schema_from_example ragged_example =
          Inr \<lparr>tables = [\<lparr>name = (case sql ragged_example of
                                    None \<Rightarrow> ''table''
                                  | Some s \<Rightarrow> (case table_id s of None \<Rightarrow> ''table'' | Some tid \<Rightarrow> tid)),
                          columns = infos, foreign_keys = []\<rparr>]\<rparr>"
    and sl: "length infos = 2"
    and sn: "\<forall>i < 2. infos ! i =
               \<lparr>column_name = [''id'', ''city'', ''note''] ! i,
                column_type = mapped_type ([''number'', ''text''] ! i), not_null = True,
                is_primary_key = (i = 0 \<and> lower ([''number'', ''text''] ! i) = ''number'')\<rparr>"
    by auto
  from sn have "infos ! 0 = \<lparr>column_name = ''id'', column_type = ''INTEGER'',
                              not_null = True, is_primary_key = True\<rparr>"
    and "infos ! 1 = \<lparr>column_name = ''city'', column_type = ''TEXT'',
                       not_null = True, is_primary_key = False\<rparr>"
    by (simp_all add: mapped_type_def low)
  with two [OF sl] have "infos = [\<lparr>column_name = ''id'', column_type = ''INTEGER'',
                                    not_null = True, is_primary_key = True\<rparr>,
                                  \<lparr>column_name = ''city'', column_type = ''TEXT'',
                                    not_null = True, is_primary_key = False\<rparr>]"
    by simp
  with s have schema: "load_schema_from_example ragged_example =
       Inr \<lparr>tables = [\<lparr>name = ''table'',
                       columns = [\<lparr>column_name = ''id'', column_type = ''INTEGER'',
                                   not_null = True, is_primary_key = True\<rparr>,
                                  \<lparr>column_name = ''city'', column_type = ''TEXT'',
                                   not_null = True, is_primary_key = False\<rparr>],
                       foreign_keys = []\<rparr>]\<rparr>"
    by (simp add: ragged_example_def)
  from h4 create schema show ?thesis by blast
qed

section \<open>INSERT statements\<close>

lemma replace_from_single:
  "replace_from [q] new s = concat (map (\<lambda>c. if c = q then new else [c]) s)"
  by (induction s) auto

lemma replace_quote: "replace s [CHR 0x27] [CHR 0x27, CHR 0x27] = double_quotes s"
  by (simp add: replace_def replace_from_single double_quotes_def)

lemma insert_values_eq: "insert_values row vals = vals @ map sql_literal row"
  by (induction row vals rule: insert_values.induct) (simp_all add: replace_quote)

lemma insert_rows_eq:
  "insert_rows tname hs rs acc =
     acc @ map (\<lambda>row. insert_sql_text tname hs (map sql_literal row)) rs"
  by (induction rs arbitrary: acc) (simp_all add: insert_values_eq)

text \<open>
  C4. The INSERT generator returns one statement per row, in row order; in each, a
  string value stands between single quotes with its single quotes doubled, \<open>None\<close>
  is \<open>NULL\<close>, and every other value is the text of \<open>str\<close>. For the header
  \<open>id, name, amount, date\<close> and the single row \<open>1, Alice, 120.5, 2025-04-01\<close> of
  strings the statement is the one that the specification gives.
\<close>

theorem insert_statements:
  assumes "table ex = Some t" and "header t = Some hs" and "rows t = Some rs"
  shows \<open>(\<exists>stmts.
            generate_insert_sql ex tname = Inr stmts
          \<and> length stmts = length rs
          \<and> (\<forall>i < length rs.
               stmts ! i =
                 ''INSERT INTO '' @ dquote tname @ '' ('' @ join '', '' (map dquote hs)
                   @ '') VALUES ('' @ join '', '' (map sql_literal (rs ! i)) @ '');''))
       \<and> generate_insert_sql scenario_example tname =
           Inr [''INSERT INTO '' @ dquote tname @ '' ("id", "name", "amount", "date") VALUES (''
                  @ squote ''1'' @ '', '' @ squote ''Alice'' @ '', ''
                  @ squote ''120.5'' @ '', '' @ squote ''2025-04-01'' @ '');'']\<close>
proof (rule conjI)
  have "generate_insert_sql ex tname = Inr (insert_rows tname hs rs [])"
    using assms by (simp add: generate_insert_sql_def getitem_def)
  then show "\<exists>stmts.
            generate_insert_sql ex tname = Inr stmts
          \<and> length stmts = length rs
          \<and> (\<forall>i < length rs.
               stmts ! i =
                 ''INSERT INTO '' @ dquote tname @ '' ('' @ join '', '' (map dquote hs)
                   @ '') VALUES ('' @ join '', '' (map sql_literal (rs ! i)) @ '');'')"
    by (simp add: insert_rows_eq insert_sql_text_def)
next
  show \<open>generate_insert_sql scenario_example tname =
           Inr [''INSERT INTO '' @ dquote tname @ '' ("id", "name", "amount", "date") VALUES (''
                  @ squote ''1'' @ '', '' @ squote ''Alice'' @ '', ''
                  @ squote ''120.5'' @ '', '' @ squote ''2025-04-01'' @ '');'']\<close>
    by (simp add: generate_insert_sql_def getitem_def scenario_example_def scenario_table_def
        insert_rows_eq insert_sql_text_def dquote_def squote_def double_quotes_def)
qed

theorem insert_statements_witness:
  \<open>generate_insert_sql quoted_example ''t'' =
     Inr [''INSERT INTO "t" ("player", "goals", "club") VALUES (''
            @ [CHR 0x27] @ ''O'' @ [CHR 0x27, CHR 0x27] @ ''Brien'' @ [CHR 0x27] @ '', 3, NULL);'']\<close>
proof -
  let ?t = "\<lparr>header = Some [''player'', ''goals'', ''club''],
             types = Some [''text'', ''number'', ''text''],
             rows = Some [[PStr (''O'' @ [CHR 0x27] @ ''Brien''), PInt 3, PNone]]\<rparr>"
  have h1: "table quoted_example = Some ?t" by (simp add: quoted_example_def)
  have h2: "header ?t = Some [''player'', ''goals'', ''club'']" by simp
  have h3: "rows ?t = Some [[PStr (''O'' @ [CHR 0x27] @ ''Brien''), PInt 3, PNone]]" by simp
  have three: "str_int 3 = ''3''" by code_simp
  from insert_statements [OF h1 h2 h3, of "''t''"] obtain stmts where
    s: "generate_insert_sql quoted_example ''t'' = Inr stmts" "length stmts = 1"
       "stmts ! 0 = ''INSERT INTO '' @ dquote ''t'' @ '' (''
           @ join '', '' (map dquote [''player'', ''goals'', ''club''])
           @ '') VALUES ('' @ join '', '' (map sql_literal [PStr (''O'' @ [CHR 0x27] @ ''Brien''), PInt 3, PNone]) @ '');''"
    by auto
  from s(2) obtain x where x: "stmts = [x]" by (cases stmts) auto
  show ?thesis using s(1,3) unfolding x
    by (simp add: dquote_def double_quotes_def three)
qed

section \<open>Conversion of an example\<close>


lemma convert_example_InrD:
  assumes "convert_example py_hash exec commit path ex db = (Inr r, db')"
  shows "\<exists>tn create inserts db1 db2 db3 s.
           generate_table_name py_hash ex = Inr tn
         \<and> generate_create_table_sql ex tn = Inr create
         \<and> generate_insert_sql ex tn = Inr inserts
         \<and> exec (drop_sql tn) db = Inr db1
         \<and> exec create db1 = Inr db2
         \<and> execute_all exec inserts db2 = (None, db3)
         \<and> commit db3 = Inr db'
         \<and> sql ex = Some s
         \<and> r = \<lparr>raw_data = ex,
                 sqlite_info = \<lparr>table_name = tn, db_path = path, create_sql = create,
                   sample_query = ''SELECT * FROM '' @ dquote tn @ '' LIMIT 5;'',
                   target_sql = (case human_readable s of
                                   None \<Rightarrow> None
                                 | Some raw_sql \<Rightarrow> Some (replace raw_sql ''table'' tn))\<rparr>\<rparr>"
  using assms unfolding convert_example_def getitem_def
  by (auto split: sum.splits prod.splits option.splits)


section \<open>Rewriting of the target query\<close>

lemma prefix_short:
  assumes "prefix w (u @ v)" and "length w \<le> length u"
  shows "prefix w u"
  using assms by (metis prefix_length_prefix prefix_order.order_refl prefixI prefix_def append_prefixD)

lemma replace_from_first:
  assumes "w \<noteq> []" and "\<not> contains w (a @ butlast w)"
  shows "replace_from w new (a @ w @ b) = a @ new @ replace_from w new b"
  using assms(2)
proof (induction a)
  case Nil
  obtain c cs where w: "w = c # cs" using assms(1) by (cases w) auto
  show ?case by (simp add: w)
next
  case (Cons x a)
  have np: "\<not> prefix w (x # a @ butlast w)" and nc: "\<not> contains w (a @ butlast w)"
    using Cons.prems by simp_all
  have split: "x # a @ w @ b = (x # a @ butlast w) @ ([last w] @ b)"
    using assms(1) by simp
  have "\<not> prefix w (x # a @ w @ b)"
  proof
    assume "prefix w (x # a @ w @ b)"
    then have "prefix w ((x # a @ butlast w) @ ([last w] @ b))" by (simp only: split)
    moreover have "length w \<le> length (x # a @ butlast w)" using assms(1) by (cases w) auto
    ultimately have "prefix w (x # a @ butlast w)" by (rule prefix_short)
    with np show False by contradiction
  qed
  then show ?case using Cons.IH [OF nc] by simp
qed

lemma replace_from_absent:
  "\<not> contains w s \<Longrightarrow> replace_from w new s = s"
  by (induction s) auto

lemma contains_iff: "contains w s \<longleftrightarrow> (\<exists>a b. s = a @ w @ b)"
proof (induction s)
  case Nil
  show ?case by auto
next
  case (Cons c cs)
  show ?case
  proof
    assume "contains w (c # cs)"
    then consider "prefix w (c # cs)" | "contains w cs" by auto
    then show "\<exists>a b. c # cs = a @ w @ b"
    proof cases
      case 1
      then obtain b where "c # cs = w @ b" by (auto simp: prefix_def)
      then have "c # cs = [] @ w @ b" by simp
      then show ?thesis by blast
    next
      case 2
      then obtain a b where "cs = a @ w @ b" using Cons.IH by blast
      then have "c # cs = (c # a) @ w @ b" by simp
      then show ?thesis by blast
    qed
  next
    assume "\<exists>a b. c # cs = a @ w @ b"
    then obtain a b where ab: "c # cs = a @ w @ b" by blast
    show "contains w (c # cs)"
    proof (cases a)
      case Nil
      then have "prefix w (c # cs)" using ab by (simp add: prefix_def)
      then show ?thesis by simp
    next
      case (Cons x a')
      then have "cs = a' @ w @ b" using ab by simp
      then have "contains w cs" using Cons.IH by blast
      then show ?thesis by simp
    qed
  qed
qed

text \<open>
  C2, as amended. For a converted example whose ground-truth SQL has a human-readable
  form, \<open>target_sql\<close> is that text with every occurrence of the substring \<open>table\<close>
  replaced by the derived table name, from left to right: a text without the substring
  is unchanged, and a text whose first occurrence follows \<open>a\<close> becomes \<open>a\<close>, the table
  name, and the rewriting of the rest. The occurrence need not be a word of its own.
\<close>

theorem target_sql_replaces_every_occurrence:
  assumes "convert_example py_hash exec commit path ex db = (Inr r, db')"
    and "sql ex = Some s" and "human_readable s = Some raw"
  shows "\<exists>out.
           target_sql (sqlite_info r) = Some out
         \<and> (\<not> contains ''table'' raw \<longrightarrow> out = raw)
         \<and> (\<forall>a b. raw = a @ ''table'' @ b \<and> \<not> contains ''table'' (a @ ''tabl'') \<longrightarrow>
                out = a @ table_name (sqlite_info r)
                        @ replace b ''table'' (table_name (sqlite_info r)))"
proof -
  from convert_example_InrD [OF assms(1)] assms(2,3)
  have t: "target_sql (sqlite_info r) = Some (replace raw ''table'' (table_name (sqlite_info r)))"
    by auto
  let ?tn = "table_name (sqlite_info r)"
  have absent: "\<not> contains ''table'' raw \<longrightarrow> replace raw ''table'' ?tn = raw"
    by (simp add: replace_def replace_from_absent)
  have first: "replace (a @ ''table'' @ b) ''table'' ?tn = a @ ?tn @ replace b ''table'' ?tn"
    if "\<not> contains ''table'' (a @ ''tabl'')" for a b
    using replace_from_first [of "''table''" a ?tn b] that by (simp add: replace_def)
  show ?thesis using t absent first by blast
qed

lemma timetable_converts:
  "(case convert_example (\<lambda>_. 42) log_exec log_commit ''p'' timetable_example (0, []) of
      (Inr r, d) \<Rightarrow> table_name (sqlite_info r) = ''ex_42''
    | (Inl e, d) \<Rightarrow> False)"
  by code_simp

theorem target_sql_replaces_every_occurrence_witness:
  "\<exists>r d. convert_example (\<lambda>_. 42) log_exec log_commit ''p'' timetable_example (0, []) = (Inr r, d)
     \<and> sql timetable_example = Some \<lparr>human_readable = Some ''SELECT timetable FROM table'', table_id = None\<rparr>
     \<and> \<not> contains ''table'' (''SELECT time'' @ ''tabl'')
     \<and> target_sql (sqlite_info r) = Some ''SELECT timeex_42 FROM ex_42''"
proof -
  obtain r d where
    c: "convert_example (\<lambda>_. 42) log_exec log_commit ''p'' timetable_example (0, []) = (Inr r, d)"
    and tn: "table_name (sqlite_info r) = ''ex_42''"
    using timetable_converts by (auto split: prod.splits sum.splits)
  let ?s = "\<lparr>human_readable = Some ''SELECT timetable FROM table'', table_id = None\<rparr>"
  have h2: "sql timetable_example = Some ?s" by (simp add: timetable_example_def)
  have h3: "human_readable ?s = Some ''SELECT timetable FROM table''" by simp
  have nc: "\<not> contains ''table'' (''SELECT time'' @ ''tabl'')" by simp
  from target_sql_replaces_every_occurrence [OF c h2 h3] obtain out where
    o: "target_sql (sqlite_info r) = Some out"
    and f: "\<forall>a b. ''SELECT timetable FROM table'' = a @ ''table'' @ b \<and> \<not> contains ''table'' (a @ ''tabl'') \<longrightarrow>
                out = a @ table_name (sqlite_info r) @ replace b ''table'' (table_name (sqlite_info r))"
    by blast
  have "''SELECT timetable FROM table'' = ''SELECT time'' @ ''table'' @ '' FROM table''" by simp
  with f nc have "out = ''SELECT time'' @ ''ex_42'' @ replace '' FROM table'' ''table'' ''ex_42''"
    unfolding tn by blast
  then have "out = ''SELECT timeex_42 FROM ex_42''" by (simp add: replace_def)
  with c h2 nc o show ?thesis by blast
qed

text \<open>
  The claim C2 as stated fails: in \<open>SELECT timetable FROM table\<close> the occurrence
  inside the identifier \<open>timetable\<close> is rewritten too, while a replacement of
  standalone words leaves it.
\<close>

theorem target_sql_standalone_counterexample:
  "map_sum id (target_sql \<circ> sqlite_info)
     (fst (convert_example (\<lambda>_. 42) log_exec log_commit ''p'' timetable_example (0, [])))
     = Inr (Some ''SELECT timeex_42 FROM ex_42'')
   \<and> replace_standalone ''SELECT timetable FROM table'' ''table'' ''ex_42''
     = ''SELECT timetable FROM ex_42''"
  by code_simp

section \<open>Materialization twice\<close>














section \<open>Prompt-Chain Generator\<close>

text \<open>
  C9. Construction raises a configuration error (a \<open>ValueError\<close>) when the credential
  is absent or empty. When the completion service raises an exception, \<open>generate\<close>
  does not raise: it returns the text of the exception behind the prefix
  \<open>Error generating SQL: \<close>.
\<close>

theorem generator_errors:
  "((api_key = None \<or> api_key = Some []) \<longrightarrow>
      sql_generator_init api_key default_llm llm_arg prompt_template =
        Inl (ValueError (Text ''OPENAI_API_KEY is not configured. Please set it in your .env file.'')))
   \<and> (invoke (llm self) (prompt self) question_text schema_text = Raised True e \<longrightarrow>
        generate invoke self question_text schema_text = Inr (''Error generating SQL: '' @ e))"
  by (auto simp: sql_generator_init_def generate_def)

theorem generator_errors_witness:
  "sql_generator_init None (\<lambda>k. ()) None None =
     Inl (ValueError (Text ''OPENAI_API_KEY is not configured. Please set it in your .env file.''))
   \<and> failing_chain () PROMPT_TEMPLATE ''How many rows?'' ''CREATE TABLE t (id INTEGER);''
       = Raised True ''Connection error.''
   \<and> generate failing_chain \<lparr>llm = (), prompt = PROMPT_TEMPLATE\<rparr> ''How many rows?''
        ''CREATE TABLE t (id INTEGER);'' = Inr ''Error generating SQL: Connection error.''"
proof -
  have h: "failing_chain (llm \<lparr>llm = (), prompt = PROMPT_TEMPLATE\<rparr>)
             (prompt \<lparr>llm = (), prompt = PROMPT_TEMPLATE\<rparr>) ''How many rows?''
             ''CREATE TABLE t (id INTEGER);'' = Raised True ''Connection error.''"
    by (simp add: failing_chain_def)
  from generator_errors [where api_key = None and invoke = failing_chain
      and self = "\<lparr>llm = (), prompt = PROMPT_TEMPLATE\<rparr>"
      and question_text = "''How many rows?''" and schema_text = "''CREATE TABLE t (id INTEGER);''"
      and e = "''Connection error.''" and default_llm = "\<lambda>k. ()" and llm_arg = None
      and prompt_template = None] h
  show ?thesis by simp
qed

section \<open>Dataset Access Layer\<close>

text \<open>
  C1. \<open>load_split\<close> with a split name that the provider does not have: the
  \<open>ValueError\<close> that lists the valid splits is raised inside the \<open>try\<close> block, where
  \<open>except Exception\<close> catches it, so the caller gets a \<open>RuntimeError\<close> around its
  message. \<open>get_example\<close> on the same provider lets the \<open>ValueError\<close> pass as it is.
\<close>

theorem load_split_wraps_validation_error:
  "load_split (Inr three_splits) ''bogus'' None init_state =
     (Inl (RuntimeError (LoadSplitFailed ''bogus''
             (InvalidSplit ''bogus'' ''bogus'' [''train'', ''validation'', ''test'']))),
      init_state\<lparr>dataset_field := Some three_splits\<rparr>)
   \<and> get_example (Inr three_splits) ''bogus'' 0 init_state =
     (Inl (ValueError (InvalidSplit ''bogus'' ''bogus'' [''train'', ''validation'', ''test''])),
      init_state\<lparr>dataset_field := Some three_splits\<rparr>)"
  by (simp add: load_split_def load_split_body_def load_dataset_def init_state_def cache_key_def
      hf_name_def three_splits_def get_example_def get_example_body_def)

lemma load_split_hit:
  "data_cache st (cache_key split_name limit) = Some a \<Longrightarrow>
     load_split prov split_name limit st = (Inr a, st)"
  by (simp add: load_split_def)

lemma load_dataset_keeps:
  "load_dataset prov st = (r, st1) \<Longrightarrow> heap st1 = heap st \<and> data_cache st1 = data_cache st"
  by (auto simp: load_dataset_def split: option.splits sum.splits)

lemma load_split_miss:
  assumes "data_cache st (cache_key split_name limit) = None"
    and "load_split prov split_name limit st = (Inr a, st1)"
  shows "a = length (heap st)
       \<and> (\<exists>data. heap st1 = heap st @ [data])
       \<and> data_cache st1 = (data_cache st)(cache_key split_name limit \<mapsto> a)"
proof -
  from assms obtain b where body: "load_split_body prov split_name limit st = (Inr b, st1)" and ab: "a = b"
    by (auto simp: load_split_def split: prod.splits sum.splits)
  then obtain ds st0 data where ld: "load_dataset prov st = (Inr ds, st0)"
    and res: "b = length (heap st0)" "st1 = st0\<lparr>heap := heap st0 @ [data],
          data_cache := (data_cache st0)(cache_key split_name limit \<mapsto> length (heap st0))\<rparr>"
    by (auto simp: load_split_body_def Let_def split: prod.splits sum.splits option.splits)
  from load_dataset_keeps [OF ld] res ab show ?thesis by auto
qed

lemma load_split_failure_keeps:
  assumes "load_split prov split_name limit st = (Inl e, st1)"
  shows "heap st1 = heap st \<and> data_cache st1 = data_cache st"
proof -
  from assms obtain e' where "load_split_body prov split_name limit st = (Inl e', st1)"
    by (auto simp: load_split_def split: prod.splits sum.splits option.splits)
  then show ?thesis
    by (auto simp: load_split_body_def Let_def split: prod.splits sum.splits option.splits
        dest: load_dataset_keeps)
qed

lemma load_split_cached:
  assumes "load_split prov split_name limit st = (Inr a, st1)"
  shows "data_cache st1 (cache_key split_name limit) = Some a"
proof (cases "data_cache st (cache_key split_name limit)")
  case None
  from load_split_miss [OF None assms] show ?thesis by simp
next
  case (Some b)
  from load_split_hit [OF Some, of prov] assms show ?thesis using Some by simp
qed

lemma load_split_wf:
  assumes "cache_wf st" and "load_split prov split_name limit st = (r, st1)"
  shows "cache_wf st1"
proof (cases "data_cache st (cache_key split_name limit)")
  case (Some b)
  from load_split_hit [OF Some, of prov] assms show ?thesis by simp
next
  case None
  show ?thesis
  proof (cases r)
    case (Inl e)
    with assms(2) load_split_failure_keeps have "heap st1 = heap st \<and> data_cache st1 = data_cache st"
      by blast
    with assms(1) show ?thesis by (simp add: cache_wf_def)
  next
    case (Inr a)
    with assms(2) load_split_miss [OF None] obtain data where
      "a = length (heap st)" "heap st1 = heap st @ [data]"
      "data_cache st1 = (data_cache st)(cache_key split_name limit \<mapsto> a)"
      by blast
    with assms(1) show ?thesis
      unfolding cache_wf_def by (auto simp: less_Suc_eq split: if_splits)
  qed
qed

lemma init_state_wf: "cache_wf init_state"
  by (simp add: cache_wf_def init_state_def)

lemma key_2_3: "cache_key split_name (Some 2) \<noteq> cache_key split_name (Some 3)"
proof -
  have "str_int 2 = ''2''" and "str_int 3 = ''3''" by code_simp+
  then show ?thesis by (simp add: cache_key_def)
qed

text \<open>
  C7. After \<open>load_split(split, limit=2)\<close> has returned a list, the same call returns
  the same list object and leaves the instance as it is, whatever the provider would
  answer: nothing is fetched again. The entry is stored under the key
  \<open>f"{split}_{limit}"\<close>, which is \<open>dev_2\<close> for \<open>dev\<close> and 2. A call with limit 3
  returns another object under its own key and leaves the entry and the list of limit 2
  as they are.
\<close>

theorem load_split_cache:
  assumes "cache_wf st" and "load_split prov split_name (Some 2) st = (Inr a, st1)"
  shows "load_split prov' split_name (Some 2) st1 = (Inr a, st1)
       \<and> cache_key ''dev'' (Some 2) = ''dev_2''
       \<and> data_cache st1 (cache_key split_name (Some 2)) = Some a
       \<and> (\<forall>b st2. load_split prov'' split_name (Some 3) st1 = (Inr b, st2) \<longrightarrow>
            b \<noteq> a
          \<and> data_cache st2 (cache_key split_name (Some 2)) = Some a
          \<and> data_cache st2 (cache_key split_name (Some 3)) = Some b
          \<and> heap st2 ! a = heap st1 ! a)"
proof (intro conjI allI impI)
  have c: "data_cache st1 (cache_key split_name (Some 2)) = Some a"
    by (rule load_split_cached [OF assms(2)])
  then show "data_cache st1 (cache_key split_name (Some 2)) = Some a" .
  from c show "load_split prov' split_name (Some 2) st1 = (Inr a, st1)"
    by (rule load_split_hit)
  have "str_int 2 = ''2''" by code_simp
  then show "cache_key ''dev'' (Some 2) = ''dev_2''" by (simp add: cache_key_def)
  have wf1: "cache_wf st1" by (rule load_split_wf [OF assms])
  fix b st2
  assume l3: "load_split prov'' split_name (Some 3) st1 = (Inr b, st2)"
  have wf2: "cache_wf st2" by (rule load_split_wf [OF wf1 l3])
  show c3: "data_cache st2 (cache_key split_name (Some 3)) = Some b"
    by (rule load_split_cached [OF l3])
  have keep: "data_cache st2 (cache_key split_name (Some 2)) = Some a \<and> heap st2 ! a = heap st1 ! a"
  proof (cases "data_cache st1 (cache_key split_name (Some 3))")
    case (Some b')
    from load_split_hit [OF Some, of prov''] l3 have "st2 = st1" by simp
    with c show ?thesis by simp
  next
    case None
    from load_split_miss [OF None l3] obtain data where
      h: "heap st2 = heap st1 @ [data]"
      and d: "data_cache st2 = (data_cache st1)(cache_key split_name (Some 3) \<mapsto> b)"
      by blast
    from wf1 c have "a < length (heap st1)" by (auto simp: cache_wf_def)
    with h d c key_2_3 [of split_name] show ?thesis by (simp add: nth_append)
  qed
  then show "data_cache st2 (cache_key split_name (Some 2)) = Some a"
    and "heap st2 ! a = heap st1 ! a" by simp_all
  show "b \<noteq> a"
  proof
    assume "b = a"
    with c3 keep wf2 have "cache_key split_name (Some 3) = cache_key split_name (Some 2)"
      unfolding cache_wf_def by blast
    with key_2_3 [of split_name] show False by simp
  qed
qed

lemma dev_first:
  "fst (load_split (Inr dev_provider) ''dev'' (Some 2) init_state) = Inr 0"
proof -
  have "str_int 2 = ''2''" by code_simp
  then show ?thesis
    by (simp add: load_split_def load_split_body_def load_dataset_def init_state_def cache_key_def
        hf_name_def dev_provider_def normalize_id_def numbered_def)
qed

theorem load_split_cache_witness:
  "cache_wf init_state
   \<and> (\<exists>st1. load_split (Inr dev_provider) ''dev'' (Some 2) init_state = (Inr 0, st1)
          \<and> load_split (Inl ''offline'') ''dev'' (Some 2) st1 = (Inr 0, st1)
          \<and> data_cache st1 ''dev_2'' = Some 0)"
proof -
  obtain st1 where l: "load_split (Inr dev_provider) ''dev'' (Some 2) init_state = (Inr 0, st1)"
    using dev_first by (cases "load_split (Inr dev_provider) ''dev'' (Some 2) init_state") auto
  from load_split_cache [OF init_state_wf l, where prov' = "Inl ''offline''" and prov'' = "Inl ''offline''"]
  have again: "load_split (Inl ''offline'') ''dev'' (Some 2) st1 = (Inr 0, st1)"
    and key: "cache_key ''dev'' (Some 2) = ''dev_2''"
    and entry: "data_cache st1 (cache_key ''dev'' (Some 2)) = Some 0"
    by blast+
  from entry key have "data_cache st1 ''dev_2'' = Some 0" by simp
  with init_state_wf l again show ?thesis by blast
qed

lemma load_items_nth:
  assumes "load_items items acc = Inr data"
  shows "length data = length acc + length items
       \<and> (\<forall>i < length acc. data ! i = acc ! i)
       \<and> (\<forall>i < length items. normalize_id (items ! i) = Inr (data ! (length acc + i)))"
  using assms
proof (induction items arbitrary: acc)
  case Nil
  then show ?case by simp
next
  case (Cons item rest)
  from Cons.prems obtain e where n: "normalize_id item = Inr e"
    and r: "load_items rest (acc @ [e]) = Inr data"
    by (auto split: sum.splits)
  from Cons.IH [OF r] have len: "length data = length acc + 1 + length rest"
    and old: "\<forall>i < length acc + 1. data ! i = (acc @ [e]) ! i"
    and new: "\<forall>i < length rest. normalize_id (rest ! i) = Inr (data ! (length acc + 1 + i))"
    by simp_all
  have "normalize_id ((item # rest) ! i) = Inr (data ! (length acc + i))" if "i < length (item # rest)" for i
  proof (cases i)
    case 0
    from old have "data ! length acc = e" by (simp add: nth_append)
    with n 0 show ?thesis by simp
  next
    case (Suc j)
    with that new show ?thesis by simp
  qed
  moreover have "data ! i = acc ! i" if "i < length acc" for i
    using old that by (simp add: nth_append)
  ultimately show ?case using len by simp
qed

lemma get_example_in_range:
  assumes "load_dataset prov st = (Inr ds, st1)" and "map_of ds (hf_name split_name) = Some items"
    and "0 \<le> index" and "index < int (length items)"
    and "normalize_id (items ! nat index) = Inr e"
  shows "get_example prov split_name index st = (Inr e, st1)"
  using assms by (simp add: get_example_def get_example_body_def)

text \<open>
  C8. For a split of \<open>N\<close> items, \<open>get_example\<close> with an index outside \<open>[0, N)\<close>
  raises an \<open>IndexError\<close> that reports the index, the split and \<open>N\<close>, and the
  caller gets it as it is, not wrapped. With an index inside the range it returns the
  item at that position with its \<open>id\<close> coerced, which is the element at that
  position of the list that \<open>load_split\<close> without a limit builds for the split.
\<close>

theorem get_example_bounds:
  assumes "load_dataset prov st = (Inr ds, st1)"
    and "map_of ds (hf_name split_name) = Some items"
  shows "((index < 0 \<or> int (length items) \<le> index) \<longrightarrow>
            get_example prov split_name index st =
              (Inl (IndexError (IndexOutOfRange index split_name (length items))), st1))
       \<and> (0 \<le> index \<and> index < int (length items) \<longrightarrow>
            (\<forall>e. normalize_id (items ! nat index) = Inr e \<longrightarrow>
                  get_example prov split_name index st = (Inr e, st1))
          \<and> (\<forall>a st2. data_cache st (cache_key split_name None) = None
                  \<and> load_split prov split_name None st = (Inr a, st2) \<longrightarrow>
                  length (heap st2 ! a) = length items
                \<and> get_example prov split_name index st = (Inr (heap st2 ! a ! nat index), st1)))"
proof (intro conjI impI allI)
  assume "index < 0 \<or> int (length items) \<le> index"
  then show "get_example prov split_name index st =
              (Inl (IndexError (IndexOutOfRange index split_name (length items))), st1)"
    using assms by (auto simp: get_example_def get_example_body_def)
next
  fix e
  assume "0 \<le> index \<and> index < int (length items)" and "normalize_id (items ! nat index) = Inr e"
  then show "get_example prov split_name index st = (Inr e, st1)"
    using get_example_in_range [OF assms] by simp
next
  fix a st2
  assume rng: "0 \<le> index \<and> index < int (length items)"
    and ld: "data_cache st (cache_key split_name None) = None
             \<and> load_split prov split_name None st = (Inr a, st2)"
  then obtain b where body: "load_split_body prov split_name None st = (Inr b, st2)" and ab: "a = b"
    by (auto simp: load_split_def split: prod.splits sum.splits)
  with assms obtain data where d: "load_items items [] = Inr data"
    and a: "b = length (heap st1)" and h: "heap st2 = heap st1 @ [data]"
    by (auto simp: load_split_body_def Let_def split: prod.splits sum.splits option.splits)
  from a h ab have hd: "heap st2 ! a = data" by simp
  from load_items_nth [OF d] have len: "length data = length items"
    and nth: "\<forall>i < length items. normalize_id (items ! i) = Inr (data ! i)"
    by simp_all
  from rng have "nat index < length items" by linarith
  with nth have "normalize_id (items ! nat index) = Inr (data ! nat index)" by blast
  with rng get_example_in_range [OF assms] have
    "get_example prov split_name index st = (Inr (data ! nat index), st1)" by simp
  with hd len show "length (heap st2 ! a) = length items"
    and "get_example prov split_name index st = (Inr (heap st2 ! a ! nat index), st1)"
    by simp_all
qed

lemma dev_all:
  "fst (load_split (Inr dev_provider) ''dev'' None init_state) = Inr 0"
  by (simp add: load_split_def load_split_body_def load_dataset_def init_state_def cache_key_def
      hf_name_def dev_provider_def normalize_id_def numbered_def)

theorem get_example_bounds_witness:
  "get_example (Inr dev_provider) ''dev'' 4 init_state =
     (Inl (IndexError (IndexOutOfRange 4 ''dev'' 4)), init_state\<lparr>dataset_field := Some dev_provider\<rparr>)
   \<and> get_example (Inr dev_provider) ''dev'' (- 1) init_state =
     (Inl (IndexError (IndexOutOfRange (- 1) ''dev'' 4)), init_state\<lparr>dataset_field := Some dev_provider\<rparr>)
   \<and> get_example (Inr dev_provider) ''dev'' 2 init_state =
     (Inr (numbered ''q2''), init_state\<lparr>dataset_field := Some dev_provider\<rparr>)
   \<and> (\<exists>st2. load_split (Inr dev_provider) ''dev'' None init_state = (Inr 0, st2)
           \<and> heap st2 ! 0 ! 2 = numbered ''q2'')"
proof -
  let ?items = "[numbered ''q0'', numbered ''q1'', numbered ''q2'', numbered ''q3'']"
  let ?st1 = "init_state\<lparr>dataset_field := Some dev_provider\<rparr>"
  have h1: "load_dataset (Inr dev_provider) init_state = (Inr dev_provider, ?st1)"
    by (simp add: load_dataset_def init_state_def)
  have h2: "map_of dev_provider (hf_name ''dev'') = Some ?items"
    by (simp add: dev_provider_def hf_name_def)
  have miss: "data_cache init_state (cache_key ''dev'' None) = None"
    by (simp add: init_state_def)
  have n2: "normalize_id (?items ! nat 2) = Inr (numbered ''q2'')"
    by (simp add: normalize_id_def numbered_def)
  obtain st2 where l: "load_split (Inr dev_provider) ''dev'' None init_state = (Inr 0, st2)"
    using dev_all by (cases "load_split (Inr dev_provider) ''dev'' None init_state") auto
  note t = get_example_bounds [OF h1 h2]
  from t [of 4] have a: "get_example (Inr dev_provider) ''dev'' 4 init_state =
     (Inl (IndexError (IndexOutOfRange 4 ''dev'' 4)), ?st1)" by simp
  from t [of "- 1"] have b: "get_example (Inr dev_provider) ''dev'' (- 1) init_state =
     (Inl (IndexError (IndexOutOfRange (- 1) ''dev'' 4)), ?st1)" by simp
  from t [of 2] n2 have c: "get_example (Inr dev_provider) ''dev'' 2 init_state =
     (Inr (numbered ''q2''), ?st1)" by simp
  from t [of 2] miss l have "get_example (Inr dev_provider) ''dev'' 2 init_state =
     (Inr (heap st2 ! 0 ! nat 2), ?st1)" by simp
  with c have "heap st2 ! 0 ! 2 = numbered ''q2''" by simp
  with a b c l show ?thesis by blast
qed

end
